theory Spec2Isabelle
  imports Main "HOL-Library.Word"
begin

section \<open>The EncryptedVideoConference contract\<close>

text \<open>
  A shallow embedding of the Solidity contract \<^verbatim>\<open>EncryptedVideoConference\<close>.
  Storage is a record that every external function takes and returns. A function body
  returns its outcome together with the storage as it stands when the body stops, so a
  \<^verbatim>\<open>require\<close> that fails before any write returns the storage it was given. The ledger's
  transaction semantics (a revert discards every write of the call) is a separate
  definition, \<open>transact\<close>.
\<close>

subsection \<open>Value types\<close>

type_synonym address = "160 word"
type_synonym uint256 = "256 word"
type_synonym uint32 = "32 word"
type_synonym bytes32 = "256 word"
type_synonym bytes = "8 word list"

text \<open>
  \<^verbatim>\<open>euint32\<close> and \<^verbatim>\<open>externalEuint32\<close> are user-defined value types over
  \<^verbatim>\<open>bytes32\<close>, declared by the FHE library: handles of ciphertexts.
\<close>

type_synonym euint32 = bytes32
type_synonym externalEuint32 = bytes32

subsection \<open>Storage\<close>

record Conference =
  conferenceId :: string
  encryptedStreamKey :: euint32
  creator :: address
  startTime :: uint256
  endTime :: uint256
  isActive :: bool
  decryptedStreamKey :: uint32
  isDecrypted :: bool

text \<open>
  A Solidity mapping is total: a key that was never written reads as the zero value of
  the struct.
\<close>

definition zero_Conference :: Conference where
  "zero_Conference =
     \<lparr> conferenceId = [], encryptedStreamKey = 0, creator = 0, startTime = 0, endTime = 0,
       isActive = False, decryptedStreamKey = 0, isDecrypted = False \<rparr>"

record storage =
  conferences :: "string \<Rightarrow> Conference"
  conferenceIds :: "string list"

text \<open>The storage of the freshly deployed contract (the constructor writes nothing).\<close>

definition init_storage :: storage where
  "init_storage = \<lparr> conferences = (\<lambda>_. zero_Conference), conferenceIds = [] \<rparr>"

subsection \<open>Call context, events, reverts\<close>

record tx_ctx =
  msg_sender :: address
  block_timestamp :: uint256

datatype event =
    ConferenceCreated string address
  | StreamKeyDecrypted string uint32

text \<open>
  One constructor for each \<^verbatim>\<open>require\<close> message of the contract, one for a revert
  inside each call of the FHE library, one for the revert of \<^verbatim>\<open>abi.decode\<close>, and one
  for the panic of an array read out of range.
\<close>

datatype error =
    Conference_already_exists
  | Invalid_encrypted_input
  | Invalid_time_range
  | Conference_has_already_ended
  | Conference_does_not_exist
  | Stream_key_already_decrypted
  | Conference_has_not_started
  | Conference_has_ended
  | Only_creator_can_end_conference
  | Conference_is_still_active
  | FHE_fromExternal_reverted
  | FHE_allowThis_reverted
  | FHE_makePubliclyDecryptable_reverted
  | FHE_checkSignatures_reverted
  | Abi_decode_reverted
  | Array_index_out_of_bounds

subsection \<open>The FHE library\<close>

text \<open>
  The library \<^verbatim>\<open>@fhevm/solidity\<close> is imported, not part of the contract. Its six
  functions that the contract calls are parameters of the model. A call that reverts
  inside the library is \<open>None\<close> for \<open>fromExternal\<close> and \<open>False\<close> for the three calls
  that return nothing.
\<close>

record fhe =
  fromExternal :: "externalEuint32 \<Rightarrow> bytes \<Rightarrow> euint32 option"
  isInitialized :: "euint32 \<Rightarrow> bool"
  allowThis :: "euint32 \<Rightarrow> bool"
  makePubliclyDecryptable :: "euint32 \<Rightarrow> bool"
  toBytes32 :: "euint32 \<Rightarrow> bytes32"
  checkSignatures :: "bytes32 list \<Rightarrow> bytes \<Rightarrow> bytes \<Rightarrow> bool"

subsection \<open>ABI decoding\<close>

text \<open>
  \<^verbatim>\<open>abi.decode(data, (uint32))\<close> reads the first 32 bytes of \<open>data\<close> as a big-endian
  word. It reverts when \<open>data\<close> is shorter than 32 bytes and when the word is not a
  \<^verbatim>\<open>uint32\<close> value (the compiler's version 2 decoder, the default of the 0.8 series,
  validates the range).
\<close>

definition be_uint256 :: "bytes \<Rightarrow> uint256" where
  "be_uint256 bs = foldl (\<lambda>acc b. acc * 256 + ucast b) 0 bs"

definition abi_decode_uint32 :: "bytes \<Rightarrow> uint32 option" where
  "abi_decode_uint32 bs =
     (if length bs < 32 then None
      else let w = be_uint256 (take 32 bs)
           in if w > 0xFFFFFFFF then None else Some (ucast w))"

subsection \<open>External functions\<close>

type_synonym outcome = "(error + event list) \<times> storage"

definition createConference ::
  "fhe \<Rightarrow> tx_ctx \<Rightarrow> string \<Rightarrow> externalEuint32 \<Rightarrow> bytes \<Rightarrow> uint256 \<Rightarrow> uint256 \<Rightarrow> storage \<Rightarrow> outcome"
where
  "createConference F c cid encKey inputProof startT endT s =
     (if \<not> length (conferenceId (conferences s cid)) = 0 then (Inl Conference_already_exists, s)
      else case fromExternal F encKey inputProof of
        None \<Rightarrow> (Inl FHE_fromExternal_reverted, s)
      | Some h \<Rightarrow>
          if \<not> isInitialized F h then (Inl Invalid_encrypted_input, s)
          else if \<not> startT < endT then (Inl Invalid_time_range, s)
          else if \<not> block_timestamp c < endT then (Inl Conference_has_already_ended, s)
          else (case fromExternal F encKey inputProof of
            None \<Rightarrow> (Inl FHE_fromExternal_reverted, s)
          | Some h' \<Rightarrow>
              let s1 = s\<lparr> conferences := (conferences s)
                         (cid := \<lparr> conferenceId = cid, encryptedStreamKey = h',
                                  creator = msg_sender c, startTime = startT, endTime = endT,
                                  isActive = True, decryptedStreamKey = 0,
                                  isDecrypted = False \<rparr>) \<rparr>
              in if \<not> allowThis F (encryptedStreamKey (conferences s1 cid))
                 then (Inl FHE_allowThis_reverted, s1)
                 else if \<not> makePubliclyDecryptable F (encryptedStreamKey (conferences s1 cid))
                 then (Inl FHE_makePubliclyDecryptable_reverted, s1)
                 else (Inr [ConferenceCreated cid (msg_sender c)],
                       s1\<lparr> conferenceIds := conferenceIds s1 @ [cid] \<rparr>)))"

definition decryptStreamKey ::
  "fhe \<Rightarrow> tx_ctx \<Rightarrow> string \<Rightarrow> bytes \<Rightarrow> bytes \<Rightarrow> storage \<Rightarrow> outcome"
where
  "decryptStreamKey F c cid abiEncodedClearKey decryptionProof s =
     (if \<not> length (conferenceId (conferences s cid)) > 0 then (Inl Conference_does_not_exist, s)
      else if \<not> \<not> isDecrypted (conferences s cid) then (Inl Stream_key_already_decrypted, s)
      else if \<not> block_timestamp c \<ge> startTime (conferences s cid)
        then (Inl Conference_has_not_started, s)
      else if \<not> block_timestamp c \<le> endTime (conferences s cid)
        then (Inl Conference_has_ended, s)
      else let cts = [toBytes32 F (encryptedStreamKey (conferences s cid))]
           in if \<not> checkSignatures F cts abiEncodedClearKey decryptionProof
              then (Inl FHE_checkSignatures_reverted, s)
              else case abi_decode_uint32 abiEncodedClearKey of
                None \<Rightarrow> (Inl Abi_decode_reverted, s)
              | Some decodedKey \<Rightarrow>
                  let s1 = s\<lparr> conferences := (conferences s)
                             (cid := (conferences s cid)\<lparr> decryptedStreamKey := decodedKey \<rparr>) \<rparr>;
                      s2 = s1\<lparr> conferences := (conferences s1)
                             (cid := (conferences s1 cid)\<lparr> isDecrypted := True \<rparr>) \<rparr>
                  in (Inr [StreamKeyDecrypted cid decodedKey], s2))"

definition getEncryptedStreamKey :: "storage \<Rightarrow> string \<Rightarrow> error + euint32" where
  "getEncryptedStreamKey s cid =
     (if \<not> length (conferenceId (conferences s cid)) > 0 then Inl Conference_does_not_exist
      else Inr (encryptedStreamKey (conferences s cid)))"

definition getConferenceDetails ::
  "storage \<Rightarrow> string \<Rightarrow> error + address \<times> uint256 \<times> uint256 \<times> bool \<times> bool \<times> uint32"
where
  "getConferenceDetails s cid =
     (if \<not> length (conferenceId (conferences s cid)) > 0 then Inl Conference_does_not_exist
      else let conf = conferences s cid
           in Inr (creator conf, startTime conf, endTime conf, isActive conf,
                   isDecrypted conf, decryptedStreamKey conf))"

definition getAllConferenceIds :: "storage \<Rightarrow> string list" where
  "getAllConferenceIds s = conferenceIds s"

definition endConference :: "tx_ctx \<Rightarrow> string \<Rightarrow> storage \<Rightarrow> outcome" where
  "endConference c cid s =
     (if \<not> length (conferenceId (conferences s cid)) > 0 then (Inl Conference_does_not_exist, s)
      else if \<not> msg_sender c = creator (conferences s cid)
        then (Inl Only_creator_can_end_conference, s)
      else if \<not> block_timestamp c > endTime (conferences s cid)
        then (Inl Conference_is_still_active, s)
      else (Inr [],
            s\<lparr> conferences := (conferences s)
                 (cid := (conferences s cid)\<lparr> isActive := False \<rparr>) \<rparr>))"

definition isConferenceActive :: "storage \<Rightarrow> string \<Rightarrow> error + bool" where
  "isConferenceActive s cid =
     (if \<not> length (conferenceId (conferences s cid)) > 0 then Inl Conference_does_not_exist
      else Inr (isActive (conferences s cid)))"

text \<open>
  Both state variables are declared \<^verbatim>\<open>public\<close>, so the compiler adds an external
  accessor for each. \<^verbatim>\<open>conferences(id)\<close> returns the fields of the mapping's entry and
  carries no guard; \<^verbatim>\<open>conferenceIds(i)\<close> returns the element at the index and panics
  when the index is out of range.
\<close>

definition conferences_getter :: "storage \<Rightarrow> string \<Rightarrow> error + Conference" where
  "conferences_getter s cid = Inr (conferences s cid)"

definition conferenceIds_getter :: "storage \<Rightarrow> uint256 \<Rightarrow> error + string" where
  "conferenceIds_getter s i =
     (if unat i < length (conferenceIds s) then Inr (conferenceIds s ! unat i)
      else Inl Array_index_out_of_bounds)"

subsection \<open>Transactions\<close>

text \<open>The three state-changing entry points of the contract, with their arguments.\<close>

datatype call =
    CreateConference string externalEuint32 bytes uint256 uint256
  | DecryptStreamKey string bytes bytes
  | EndConference string

fun dispatch :: "fhe \<Rightarrow> tx_ctx \<Rightarrow> call \<Rightarrow> storage \<Rightarrow> outcome" where
  "dispatch F c (CreateConference cid encKey inputProof startT endT) s =
     createConference F c cid encKey inputProof startT endT s"
| "dispatch F c (DecryptStreamKey cid clearKey decryptionProof) s =
     decryptStreamKey F c cid clearKey decryptionProof s"
| "dispatch F c (EndConference cid) s = endConference c cid s"

text \<open>
  A transaction is a call together with its context and with the behaviour of the FHE
  library during the call, which may differ from one transaction to the next. A
  transaction that reverts leaves the storage as it was before the call; one that returns
  keeps the writes of the body.
\<close>

type_synonym tx = "fhe \<times> tx_ctx \<times> call"

definition transact :: "storage \<Rightarrow> tx \<Rightarrow> storage" where
  "transact s t =
     (case t of (F, c, k) \<Rightarrow>
        (case dispatch F c k s of
           (Inl e, _) \<Rightarrow> s
         | (Inr evs, s') \<Rightarrow> s'))"

definition run :: "storage \<Rightarrow> tx list \<Rightarrow> storage" where
  "run s ts = foldl transact s ts"

subsection \<open>Histories\<close>

text \<open>
  The storage after each transaction of a history, and two measures on histories: the
  ids of the \<^verbatim>\<open>createConference\<close> calls that returned, in call order, and the number
  of steps at which the \<^verbatim>\<open>isActive\<close> flag of an id goes from true to false.
\<close>

fun trace :: "storage \<Rightarrow> tx list \<Rightarrow> storage list" where
  "trace s [] = [s]"
| "trace s (t # ts) = s # trace (transact s t) ts"

fun created_by :: "storage \<Rightarrow> tx \<Rightarrow> string list" where
  "created_by s (F, c, CreateConference cid encKey inputProof startT endT) =
     (case fst (createConference F c cid encKey inputProof startT endT s) of
        Inl e \<Rightarrow> []
      | Inr evs \<Rightarrow> [cid])"
| "created_by s (F, c, DecryptStreamKey cid clearKey decryptionProof) = []"
| "created_by s (F, c, EndConference cid) = []"

fun created_ids :: "storage \<Rightarrow> tx list \<Rightarrow> string list" where
  "created_ids s [] = []"
| "created_ids s (t # ts) = created_by s t @ created_ids (transact s t) ts"

fun deactivations :: "string \<Rightarrow> storage list \<Rightarrow> nat" where
  "deactivations cid (s # s' # rest) =
     (if isActive (conferences s cid) \<and> \<not> isActive (conferences s' cid) then 1 else 0)
       + deactivations cid (s' # rest)"
| "deactivations cid _ = 0"

fun is_create :: "call \<Rightarrow> bool" where
  "is_create (CreateConference cid encKey inputProof startT endT) = True"
| "is_create _ = False"

subsection \<open>The invariant of the storage\<close>

text \<open>
  What every storage reached from deployment satisfies: an id that was never pushed to
  \<^verbatim>\<open>conferenceIds\<close> maps to the zero record, a pushed id maps to a record that carries the
  id, and the record of the empty id, once written, is active and not decrypted.
\<close>

definition store_inv :: "storage \<Rightarrow> bool" where
  "store_inv s \<longleftrightarrow>
     (\<forall>cid. (cid \<notin> set (conferenceIds s) \<longrightarrow> conferences s cid = zero_Conference) \<and>
            (cid \<in> set (conferenceIds s) \<longrightarrow> conferenceId (conferences s cid) = cid)) \<and>
     ([] \<in> set (conferenceIds s) \<longrightarrow>
        isActive (conferences s []) \<and> \<not> isDecrypted (conferences s []) \<and>
        decryptedStreamKey (conferences s []) = 0)"

subsection \<open>Sample data\<close>

text \<open>
  A library double that accepts every input proof and every decryption proof, a call
  context, and the storage after one conference was created by account 1 at time 10,
  open from 5 to 20.
\<close>

definition accepting_fhe :: fhe where
  "accepting_fhe =
     \<lparr> fromExternal = (\<lambda>h p. Some h), isInitialized = (\<lambda>h. h \<noteq> 0),
       allowThis = (\<lambda>_. True), makePubliclyDecryptable = (\<lambda>_. True),
       toBytes32 = (\<lambda>h. h), checkSignatures = (\<lambda>_ _ _. True) \<rparr>"

definition at_time :: "address \<Rightarrow> uint256 \<Rightarrow> tx_ctx" where
  "at_time a n = \<lparr> msg_sender = a, block_timestamp = n \<rparr>"

definition one_conference :: storage where
  "one_conference =
     run init_storage [(accepting_fhe, at_time 1 10, CreateConference ''room'' 7 [] 5 20)]"

text \<open>
  A library double that refuses \<^verbatim>\<open>allowThis\<close> and one that rejects every decryption
  proof, two well-formed encodings of a \<^verbatim>\<open>uint32\<close>, and the storage after the conference
  was decrypted, after it was ended, and after a conference with the empty id was created.
\<close>

definition denying_fhe :: fhe where
  "denying_fhe = accepting_fhe\<lparr> allowThis := (\<lambda>_. False) \<rparr>"

definition rejecting_fhe :: fhe where
  "rejecting_fhe = accepting_fhe\<lparr> checkSignatures := (\<lambda>_ _ _. False) \<rparr>"

definition clear42 :: bytes where
  "clear42 = [0,0,0,0,0,0,0,0, 0,0,0,0,0,0,0,0, 0,0,0,0,0,0,0,0, 0,0,0,0,0,0,0,42]"

definition clear43 :: bytes where
  "clear43 = [0,0,0,0,0,0,0,0, 0,0,0,0,0,0,0,0, 0,0,0,0,0,0,0,0, 0,0,0,0,0,0,0,43]"

definition decrypted_conference :: storage where
  "decrypted_conference =
     run one_conference [(accepting_fhe, at_time 2 10, DecryptStreamKey ''room'' clear42 [])]"

definition ended_conference :: storage where
  "ended_conference =
     run one_conference [(accepting_fhe, at_time 1 21, EndConference ''room'')]"

definition empty_id_conference :: storage where
  "empty_id_conference =
     run init_storage [(accepting_fhe, at_time 1 10, CreateConference [] 7 [] 5 20)]"

section \<open>Properties\<close>

subsection \<open>One transaction\<close>

text \<open>
  Each transaction either leaves the storage as it was or performs exactly the writes of
  the body that returned.
\<close>

lemma transact_create_cases:
  "transact s (F, c, CreateConference cid k p a b) = s \<or>
   (conferenceId (conferences s cid) = [] \<and>
    (\<exists>h. transact s (F, c, CreateConference cid k p a b) =
       s\<lparr> conferences := (conferences s)
            (cid := \<lparr> conferenceId = cid, encryptedStreamKey = h, creator = msg_sender c,
                     startTime = a, endTime = b, isActive = True, decryptedStreamKey = 0,
                     isDecrypted = False \<rparr>),
          conferenceIds := conferenceIds s @ [cid] \<rparr>))"
  by (auto simp: transact_def createConference_def Let_def split: option.split)

lemma transact_decrypt_cases:
  "transact s (F, c, DecryptStreamKey cid k p) = s \<or>
   (conferenceId (conferences s cid) \<noteq> [] \<and> \<not> isDecrypted (conferences s cid) \<and>
    (\<exists>v. abi_decode_uint32 k = Some v \<and>
       transact s (F, c, DecryptStreamKey cid k p) =
         s\<lparr> conferences := (conferences s)
              (cid := (conferences s cid)\<lparr> decryptedStreamKey := v, isDecrypted := True \<rparr>) \<rparr>))"
  by (auto simp: transact_def decryptStreamKey_def Let_def split: option.split)

lemma transact_end_cases:
  "transact s (F, c, EndConference cid) = s \<or>
   (conferenceId (conferences s cid) \<noteq> [] \<and> msg_sender c = creator (conferences s cid) \<and>
    endTime (conferences s cid) < block_timestamp c \<and>
    transact s (F, c, EndConference cid) =
      s\<lparr> conferences := (conferences s)
           (cid := (conferences s cid)\<lparr> isActive := False \<rparr>) \<rparr>)"
  by (simp add: transact_def endConference_def)

subsection \<open>Histories and the invariant\<close>

lemma run_Nil: "run s [] = s"
  by (simp add: run_def)

lemma run_Cons: "run s (t # ts) = run (transact s t) ts"
  by (simp add: run_def)

lemma run_append: "run s (ts @ us) = run (run s ts) us"
  by (simp add: run_def)

lemma store_inv_init: "store_inv init_storage"
  by (simp add: store_inv_def init_storage_def)

lemma store_inv_transact:
  assumes w: "store_inv s"
  shows "store_inv (transact s t)"
proof -
  obtain F c k where t: "t = (F, c, k)"
    by (cases t) auto
  show ?thesis
  proof (cases k)
    case (CreateConference cid e p a b)
    with w t transact_create_cases [of s F c cid e p a b] show ?thesis
      by (auto simp: store_inv_def zero_Conference_def split: if_splits)
  next
    case (DecryptStreamKey cid e p)
    with w t transact_decrypt_cases [of s F c cid e p] show ?thesis
      by (auto simp: store_inv_def zero_Conference_def split: if_splits)
  next
    case (EndConference cid)
    with w t transact_end_cases [of s F c cid] show ?thesis
      by (auto simp: store_inv_def zero_Conference_def split: if_splits)
  qed
qed

lemma store_inv_run: "store_inv s \<Longrightarrow> store_inv (run s ts)"
  by (induction ts arbitrary: s) (simp_all add: run_Nil run_Cons store_inv_transact)

lemma store_inv_reachable: "store_inv (run init_storage ts)"
  by (rule store_inv_run [OF store_inv_init])

text \<open>
  For an id other than the empty string, the contract's test for an unknown id (the
  stored record has an empty \<^verbatim>\<open>conferenceId\<close>) says exactly that the id was never created.
\<close>

lemma guard_iff_created:
  assumes "store_inv s" and "cid \<noteq> []"
  shows "conferenceId (conferences s cid) = [] \<longleftrightarrow> cid \<notin> set (getAllConferenceIds s)"
  using assms
  by (cases "cid \<in> set (conferenceIds s)")
    (auto simp: store_inv_def zero_Conference_def getAllConferenceIds_def)

lemma one_conference_eq:
  "one_conference =
     \<lparr> conferences = (\<lambda>_. zero_Conference)
         (''room'' := \<lparr> conferenceId = ''room'', encryptedStreamKey = 7, creator = 1,
                        startTime = 5, endTime = 20, isActive = True,
                        decryptedStreamKey = 0, isDecrypted = False \<rparr>),
       conferenceIds = [''room''] \<rparr>"
  by (simp add: one_conference_def run_def transact_def createConference_def
      accepting_fhe_def at_time_def init_storage_def zero_Conference_def)

lemma one_conference_reached:
  "one_conference =
     run init_storage [(accepting_fhe, at_time 1 10, CreateConference ''room'' 7 [] 5 20)]"
  by (simp add: one_conference_def)

lemma abi_decode_clear42: "abi_decode_uint32 clear42 = Some 42"
  by (simp add: abi_decode_uint32_def be_uint256_def clear42_def)

lemma abi_decode_clear43: "abi_decode_uint32 clear43 = Some 43"
  by (simp add: abi_decode_uint32_def be_uint256_def clear43_def)

lemma abi_decode_empty: "abi_decode_uint32 [] = None"
  by (simp add: abi_decode_uint32_def)

lemma decrypted_conference_eq:
  "decrypted_conference =
     \<lparr> conferences = (\<lambda>_. zero_Conference)
         (''room'' := \<lparr> conferenceId = ''room'', encryptedStreamKey = 7, creator = 1,
                        startTime = 5, endTime = 20, isActive = True,
                        decryptedStreamKey = 42, isDecrypted = True \<rparr>),
       conferenceIds = [''room''] \<rparr>"
  by (simp add: decrypted_conference_def run_def transact_def decryptStreamKey_def
      one_conference_eq accepting_fhe_def at_time_def abi_decode_clear42)

lemma decrypted_conference_reached:
  "decrypted_conference =
     run init_storage
       [(accepting_fhe, at_time 1 10, CreateConference ''room'' 7 [] 5 20),
        (accepting_fhe, at_time 2 10, DecryptStreamKey ''room'' clear42 [])]"
  by (simp add: decrypted_conference_def one_conference_def run_def)

lemma ended_conference_eq:
  "ended_conference =
     \<lparr> conferences = (\<lambda>_. zero_Conference)
         (''room'' := \<lparr> conferenceId = ''room'', encryptedStreamKey = 7, creator = 1,
                        startTime = 5, endTime = 20, isActive = False,
                        decryptedStreamKey = 0, isDecrypted = False \<rparr>),
       conferenceIds = [''room''] \<rparr>"
  by (simp add: ended_conference_def run_def transact_def endConference_def
      one_conference_eq at_time_def)

lemma ended_conference_reached:
  "ended_conference =
     run init_storage
       [(accepting_fhe, at_time 1 10, CreateConference ''room'' 7 [] 5 20),
        (accepting_fhe, at_time 1 21, EndConference ''room'')]"
  by (simp add: ended_conference_def one_conference_def run_def)

lemma empty_id_conference_eq:
  "empty_id_conference =
     \<lparr> conferences = (\<lambda>_. zero_Conference)
         ([] := \<lparr> conferenceId = [], encryptedStreamKey = 7, creator = 1,
                  startTime = 5, endTime = 20, isActive = True,
                  decryptedStreamKey = 0, isDecrypted = False \<rparr>),
       conferenceIds = [[]] \<rparr>"
  by (simp add: empty_id_conference_def run_def transact_def createConference_def
      accepting_fhe_def at_time_def init_storage_def zero_Conference_def)

subsection \<open>Creating a conference\<close>

text \<open>
  When \<^verbatim>\<open>createConference\<close> returns, and what it has written then. For an id that is
  not the empty string, the created record is what \<^verbatim>\<open>getConferenceDetails\<close> reports
  next, and a second creation of the id fails.
\<close>

lemma createConference_returns:
  "createConference F c cid k p a b s = (Inr evs, s') \<longleftrightarrow>
     conferenceId (conferences s cid) = [] \<and> a < b \<and> block_timestamp c < b \<and>
     evs = [ConferenceCreated cid (msg_sender c)] \<and>
     (\<exists>h. fromExternal F k p = Some h \<and> isInitialized F h \<and> allowThis F h \<and>
          makePubliclyDecryptable F h \<and>
          s' = s\<lparr> conferences := (conferences s)
                    (cid := \<lparr> conferenceId = cid, encryptedStreamKey = h,
                             creator = msg_sender c, startTime = a, endTime = b,
                             isActive = True, decryptedStreamKey = 0, isDecrypted = False \<rparr>),
                  conferenceIds := conferenceIds s @ [cid] \<rparr>)"
  by (auto simp: createConference_def Let_def split: option.splits)

lemma create_then_get:
  assumes "cid \<noteq> []" and "createConference F c cid k p a b s = (Inr evs, s')"
  shows "getConferenceDetails s' cid = Inr (msg_sender c, a, b, True, False, 0)"
  using assms by (auto simp: createConference_returns getConferenceDetails_def)

lemma createConference_existing:
  "conferenceId (conferences s cid) \<noteq> [] \<Longrightarrow>
     createConference F c cid k p a b s = (Inl Conference_already_exists, s)"
  by (simp add: createConference_def)

lemma createConference_invalid_window:
  assumes "conferenceId (conferences s cid) = []" and "fromExternal F k p = Some h"
    and "isInitialized F h"
  shows "\<not> a < b \<Longrightarrow> createConference F c cid k p a b s = (Inl Invalid_time_range, s)"
    and "a < b \<Longrightarrow> b \<le> block_timestamp c \<Longrightarrow>
           createConference F c cid k p a b s = (Inl Conference_has_already_ended, s)"
  using assms by (simp_all add: createConference_def not_less)

lemma createConference_invalid_window_fails:
  "\<not> a < b \<or> b \<le> block_timestamp c \<Longrightarrow>
     \<exists>e. fst (createConference F c cid k p a b s) = Inl e \<and>
         transact s (F, c, CreateConference cid k p a b) = s"
  by (auto simp: createConference_def transact_def Let_def not_less split: option.splits)

lemma create_twice:
  assumes "cid \<noteq> []" and "createConference F c cid k p a b s = (Inr evs, s')"
  shows "createConference F c' cid k' p' a' b' s' = (Inl Conference_already_exists, s')"
    and "transact s' (F, c', CreateConference cid k' p' a' b') = s'"
  using assms by (auto simp: createConference_returns createConference_existing transact_def)


text \<open>
  Claim C1, at the empty id. The claim is that for every id a \<^verbatim>\<open>createConference\<close>
  that returns is followed by a \<^verbatim>\<open>getConferenceDetails\<close> of the id that reports the
  created record. With the empty string as id the creation returns and stores the record,
  and the read that follows fails with "Conference does not exist": the stored
  \<^verbatim>\<open>conferenceId\<close> is the empty string, which is the contract's mark of an unknown id.
  (For every other id the claim holds: \<open>create_then_get\<close>.)
\<close>

theorem create_then_get_empty_id:
  "createConference accepting_fhe (at_time 1 10) [] 7 [] 5 20 init_storage =
     (Inr [ConferenceCreated [] 1], empty_id_conference) \<and>
   getConferenceDetails empty_id_conference [] = Inl Conference_does_not_exist"
  by (simp add: empty_id_conference_eq createConference_def getConferenceDetails_def
      accepting_fhe_def at_time_def init_storage_def zero_Conference_def)

text \<open>
  Claim C4, at the empty id. The claim is that a second \<^verbatim>\<open>createConference\<close> of an
  id fails with "Conference already exists" and leaves the record of the first call. With
  the empty string as id the second call returns too, replaces the record and pushes the
  id a second time. (For every other id the second call fails and writes nothing:
  \<open>create_twice\<close>; a stored non-empty id fails first: \<open>createConference_existing\<close>; an
  invalid window fails and writes nothing: \<open>createConference_invalid_window\<close>,
  \<open>createConference_invalid_window_fails\<close>.)
\<close>

theorem create_twice_empty_id:
  "createConference accepting_fhe (at_time 1 10) [] 7 [] 5 20 init_storage =
     (Inr [ConferenceCreated [] 1], empty_id_conference) \<and>
   fst (createConference accepting_fhe (at_time 2 11) [] 9 [] 6 30 empty_id_conference) =
     Inr [ConferenceCreated [] 2] \<and>
   conferences (snd (createConference accepting_fhe (at_time 2 11) [] 9 [] 6 30
       empty_id_conference)) [] =
     \<lparr> conferenceId = [], encryptedStreamKey = 9, creator = 2, startTime = 6, endTime = 30,
       isActive = True, decryptedStreamKey = 0, isDecrypted = False \<rparr> \<and>
   conferences empty_id_conference [] =
     \<lparr> conferenceId = [], encryptedStreamKey = 7, creator = 1, startTime = 5, endTime = 20,
       isActive = True, decryptedStreamKey = 0, isDecrypted = False \<rparr> \<and>
   getAllConferenceIds (snd (createConference accepting_fhe (at_time 2 11) [] 9 [] 6 30
       empty_id_conference)) = [[], []]"
  by (simp add: empty_id_conference_eq createConference_def getAllConferenceIds_def
      accepting_fhe_def at_time_def init_storage_def zero_Conference_def)

subsection \<open>Submitting the decryption\<close>

text \<open>
  The checks of \<^verbatim>\<open>decryptStreamKey\<close> in the order of the body, for every storage, in
  terms of the stored record: its \<^verbatim>\<open>conferenceId\<close> is empty, it is decrypted, the block
  time is outside its window, the library rejects the proof, the clear value does not
  decode.
\<close>

lemma decryptStreamKey_guards:
  "(conferenceId (conferences s cid) = [] \<longrightarrow>
      decryptStreamKey F c cid k p s = (Inl Conference_does_not_exist, s)) \<and>
   (conferenceId (conferences s cid) \<noteq> [] \<and> isDecrypted (conferences s cid) \<longrightarrow>
      decryptStreamKey F c cid k p s = (Inl Stream_key_already_decrypted, s)) \<and>
   (conferenceId (conferences s cid) \<noteq> [] \<and> \<not> isDecrypted (conferences s cid) \<and>
    block_timestamp c < startTime (conferences s cid) \<longrightarrow>
      decryptStreamKey F c cid k p s = (Inl Conference_has_not_started, s)) \<and>
   (conferenceId (conferences s cid) \<noteq> [] \<and> \<not> isDecrypted (conferences s cid) \<and>
    startTime (conferences s cid) \<le> block_timestamp c \<and>
    endTime (conferences s cid) < block_timestamp c \<longrightarrow>
      decryptStreamKey F c cid k p s = (Inl Conference_has_ended, s)) \<and>
   (conferenceId (conferences s cid) \<noteq> [] \<and> \<not> isDecrypted (conferences s cid) \<and>
    startTime (conferences s cid) \<le> block_timestamp c \<and>
    block_timestamp c \<le> endTime (conferences s cid) \<and>
    \<not> checkSignatures F [toBytes32 F (encryptedStreamKey (conferences s cid))] k p \<longrightarrow>
      decryptStreamKey F c cid k p s = (Inl FHE_checkSignatures_reverted, s)) \<and>
   (conferenceId (conferences s cid) \<noteq> [] \<and> \<not> isDecrypted (conferences s cid) \<and>
    startTime (conferences s cid) \<le> block_timestamp c \<and>
    block_timestamp c \<le> endTime (conferences s cid) \<and>
    checkSignatures F [toBytes32 F (encryptedStreamKey (conferences s cid))] k p \<and>
    abi_decode_uint32 k = None \<longrightarrow>
      decryptStreamKey F c cid k p s = (Inl Abi_decode_reverted, s)) \<and>
   (\<forall>v. conferenceId (conferences s cid) \<noteq> [] \<and> \<not> isDecrypted (conferences s cid) \<and>
    startTime (conferences s cid) \<le> block_timestamp c \<and>
    block_timestamp c \<le> endTime (conferences s cid) \<and>
    checkSignatures F [toBytes32 F (encryptedStreamKey (conferences s cid))] k p \<and>
    abi_decode_uint32 k = Some v \<longrightarrow>
      decryptStreamKey F c cid k p s =
        (Inr [StreamKeyDecrypted cid v],
         s\<lparr> conferences := (conferences s)
              (cid := (conferences s cid)\<lparr> decryptedStreamKey := v, isDecrypted := True \<rparr>) \<rparr>)) \<and>
   ((\<exists>evs. fst (decryptStreamKey F c cid k p s) = Inr evs) \<longleftrightarrow>
      conferenceId (conferences s cid) \<noteq> [] \<and> \<not> isDecrypted (conferences s cid) \<and>
      startTime (conferences s cid) \<le> block_timestamp c \<and>
      block_timestamp c \<le> endTime (conferences s cid) \<and>
      checkSignatures F [toBytes32 F (encryptedStreamKey (conferences s cid))] k p \<and>
      abi_decode_uint32 k \<noteq> None)"
  by (auto simp: decryptStreamKey_def Let_def not_le not_less split: option.splits)

text \<open>
  Claim C2, amended. For every storage reached from deployment and every call of
  \<^verbatim>\<open>decryptStreamKey\<close> with an id other than the empty string: the call fails with
  "Conference does not exist" when no conference with that id was created; otherwise with
  "Stream key already decrypted" when \<^verbatim>\<open>isDecrypted\<close> is set; otherwise with "Conference
  has not started" when the block time is before the start time, and with "Conference has
  ended" when it is after the end time; otherwise it reverts inside
  \<^verbatim>\<open>FHE.checkSignatures\<close> when the library rejects the proof; otherwise it reverts in
  \<^verbatim>\<open>abi.decode\<close> when the clear value is not the encoding of a \<^verbatim>\<open>uint32\<close>; no failing
  call writes anything; and the call returns exactly when the conference was created and
  none of the other conditions holds, and then stores the decoded value and sets
  \<^verbatim>\<open>isDecrypted\<close>. The empty id is left out: a conference created with it is never
  found.
\<close>

theorem decryptStreamKey_outcomes:
  assumes "s = run init_storage pre" and "cid \<noteq> []"
  shows
  "(cid \<notin> set (getAllConferenceIds s) \<longrightarrow>
      decryptStreamKey F c cid k p s = (Inl Conference_does_not_exist, s)) \<and>
   (cid \<in> set (getAllConferenceIds s) \<and> isDecrypted (conferences s cid) \<longrightarrow>
      decryptStreamKey F c cid k p s = (Inl Stream_key_already_decrypted, s)) \<and>
   (cid \<in> set (getAllConferenceIds s) \<and> \<not> isDecrypted (conferences s cid) \<and>
    block_timestamp c < startTime (conferences s cid) \<longrightarrow>
      decryptStreamKey F c cid k p s = (Inl Conference_has_not_started, s)) \<and>
   (cid \<in> set (getAllConferenceIds s) \<and> \<not> isDecrypted (conferences s cid) \<and>
    startTime (conferences s cid) \<le> block_timestamp c \<and>
    endTime (conferences s cid) < block_timestamp c \<longrightarrow>
      decryptStreamKey F c cid k p s = (Inl Conference_has_ended, s)) \<and>
   (cid \<in> set (getAllConferenceIds s) \<and> \<not> isDecrypted (conferences s cid) \<and>
    startTime (conferences s cid) \<le> block_timestamp c \<and>
    block_timestamp c \<le> endTime (conferences s cid) \<and>
    \<not> checkSignatures F [toBytes32 F (encryptedStreamKey (conferences s cid))] k p \<longrightarrow>
      decryptStreamKey F c cid k p s = (Inl FHE_checkSignatures_reverted, s)) \<and>
   (cid \<in> set (getAllConferenceIds s) \<and> \<not> isDecrypted (conferences s cid) \<and>
    startTime (conferences s cid) \<le> block_timestamp c \<and>
    block_timestamp c \<le> endTime (conferences s cid) \<and>
    checkSignatures F [toBytes32 F (encryptedStreamKey (conferences s cid))] k p \<and>
    abi_decode_uint32 k = None \<longrightarrow>
      decryptStreamKey F c cid k p s = (Inl Abi_decode_reverted, s)) \<and>
   (\<forall>v. cid \<in> set (getAllConferenceIds s) \<and> \<not> isDecrypted (conferences s cid) \<and>
    startTime (conferences s cid) \<le> block_timestamp c \<and>
    block_timestamp c \<le> endTime (conferences s cid) \<and>
    checkSignatures F [toBytes32 F (encryptedStreamKey (conferences s cid))] k p \<and>
    abi_decode_uint32 k = Some v \<longrightarrow>
      decryptStreamKey F c cid k p s =
        (Inr [StreamKeyDecrypted cid v],
         s\<lparr> conferences := (conferences s)
              (cid := (conferences s cid)\<lparr> decryptedStreamKey := v, isDecrypted := True \<rparr>) \<rparr>)) \<and>
   ((\<exists>evs. fst (decryptStreamKey F c cid k p s) = Inr evs) \<longleftrightarrow>
      cid \<in> set (getAllConferenceIds s) \<and> \<not> isDecrypted (conferences s cid) \<and>
      startTime (conferences s cid) \<le> block_timestamp c \<and>
      block_timestamp c \<le> endTime (conferences s cid) \<and>
      checkSignatures F [toBytes32 F (encryptedStreamKey (conferences s cid))] k p \<and>
      abi_decode_uint32 k \<noteq> None)"
proof -
  have "store_inv s"
    using assms(1) by (simp add: store_inv_reachable)
  then have g: "cid \<in> set (getAllConferenceIds s) \<longleftrightarrow> conferenceId (conferences s cid) \<noteq> []"
    using guard_iff_created [of s cid] assms(2) by blast
  show ?thesis
    unfolding g using decryptStreamKey_guards [of s cid F c k p] by simp
qed

theorem decryptStreamKey_outcomes_witness:
  "''room'' \<in> set (getAllConferenceIds one_conference) \<and>
   ''nobody'' \<notin> set (getAllConferenceIds one_conference) \<and>
   decryptStreamKey accepting_fhe (at_time 2 10) ''nobody'' clear42 [] one_conference =
     (Inl Conference_does_not_exist, one_conference) \<and>
   decryptStreamKey accepting_fhe (at_time 2 10) ''room'' clear42 [] decrypted_conference =
     (Inl Stream_key_already_decrypted, decrypted_conference) \<and>
   decryptStreamKey accepting_fhe (at_time 2 4) ''room'' clear42 [] one_conference =
     (Inl Conference_has_not_started, one_conference) \<and>
   decryptStreamKey accepting_fhe (at_time 2 21) ''room'' clear42 [] one_conference =
     (Inl Conference_has_ended, one_conference) \<and>
   decryptStreamKey rejecting_fhe (at_time 2 10) ''room'' clear42 [] one_conference =
     (Inl FHE_checkSignatures_reverted, one_conference) \<and>
   decryptStreamKey accepting_fhe (at_time 2 10) ''room'' [] [] one_conference =
     (Inl Abi_decode_reverted, one_conference) \<and>
   decryptStreamKey accepting_fhe (at_time 2 10) ''room'' clear42 [] one_conference =
     (Inr [StreamKeyDecrypted ''room'' 42], decrypted_conference)"
proof -
  have r: "''room'' \<noteq> []" and n: "''nobody'' \<noteq> []"
    by simp_all
  note one = decryptStreamKey_outcomes [OF one_conference_reached]
  note dec = decryptStreamKey_outcomes [OF decrypted_conference_reached]
  show ?thesis
    using one [OF n, of accepting_fhe "at_time 2 10" clear42 "[]"]
      dec [OF r, of accepting_fhe "at_time 2 10" clear42 "[]"]
      one [OF r, of accepting_fhe "at_time 2 4" clear42 "[]"]
      one [OF r, of accepting_fhe "at_time 2 21" clear42 "[]"]
      one [OF r, of rejecting_fhe "at_time 2 10" clear42 "[]"]
      one [OF r, of accepting_fhe "at_time 2 10" "[]" "[]"]
      one [OF r, of accepting_fhe "at_time 2 10" clear42 "[]"]
    by (simp add: one_conference_eq decrypted_conference_eq at_time_def zero_Conference_def
        accepting_fhe_def rejecting_fhe_def abi_decode_clear42 abi_decode_empty
        getAllConferenceIds_def)
qed

text \<open>
  Claim C2 as stated names four conditions and says the call returns exactly when none of
  them holds. Here none of the four holds (the conference \<open>''room''\<close> was created, is not
  decrypted, the block time is inside the window and the library accepts the proof), and
  the call still fails: the clear value is the empty byte string, which \<^verbatim>\<open>abi.decode\<close>
  rejects.
\<close>

theorem decryptStreamKey_malformed_cleartext:
  "''room'' \<in> set (getAllConferenceIds one_conference) \<and>
   conferenceId (conferences one_conference ''room'') \<noteq> [] \<and>
   \<not> isDecrypted (conferences one_conference ''room'') \<and>
   startTime (conferences one_conference ''room'') \<le> block_timestamp (at_time 2 10) \<and>
   block_timestamp (at_time 2 10) \<le> endTime (conferences one_conference ''room'') \<and>
   checkSignatures accepting_fhe
     [toBytes32 accepting_fhe (encryptedStreamKey (conferences one_conference ''room''))] [] [] \<and>
   decryptStreamKey accepting_fhe (at_time 2 10) ''room'' [] [] one_conference =
     (Inl Abi_decode_reverted, one_conference)"
  by (simp add: decryptStreamKey_def one_conference_eq at_time_def accepting_fhe_def
      abi_decode_empty getAllConferenceIds_def)

text \<open>
  The decrypted value and its flag change only in a \<^verbatim>\<open>decryptStreamKey\<close> that returns,
  and a decrypted record stays as it is.
\<close>

lemma decrypt_fields_step:
  assumes inv: "store_inv s"
    and ch: "isDecrypted (conferences (transact s (F, c, k)) cid) \<noteq>
               isDecrypted (conferences s cid) \<or>
             decryptedStreamKey (conferences (transact s (F, c, k)) cid) \<noteq>
               decryptedStreamKey (conferences s cid)"
  shows "(\<exists>clear p. k = DecryptStreamKey cid clear p \<and>
            abi_decode_uint32 clear =
              Some (decryptedStreamKey (conferences (transact s (F, c, k)) cid))) \<and>
         \<not> isDecrypted (conferences s cid) \<and>
         isDecrypted (conferences (transact s (F, c, k)) cid)"
proof (cases k)
  case (CreateConference cid' e p a b)
  have z: "conferenceId (conferences s cid) = [] \<Longrightarrow>
           \<not> isDecrypted (conferences s cid) \<and> decryptedStreamKey (conferences s cid) = 0"
    using inv by (cases "cid \<in> set (conferenceIds s)") (auto simp: store_inv_def zero_Conference_def)
  from ch CreateConference transact_create_cases [of s F c cid' e p a b] z
  show ?thesis
    by (auto split: if_splits)
next
  case (DecryptStreamKey cid' e p)
  with ch transact_decrypt_cases [of s F c cid' e p] show ?thesis
    by (auto split: if_splits)
next
  case (EndConference cid')
  with ch transact_end_cases [of s F c cid'] show ?thesis
    by (auto split: if_splits)
qed

lemma decrypted_exists:
  "store_inv s \<Longrightarrow> isDecrypted (conferences s cid) \<Longrightarrow> conferenceId (conferences s cid) \<noteq> []"
  by (cases "cid \<in> set (conferenceIds s)") (auto simp: store_inv_def zero_Conference_def)

lemma decrypted_run:
  "store_inv s \<Longrightarrow> isDecrypted (conferences s cid) \<Longrightarrow>
     isDecrypted (conferences (run s ts) cid) \<and>
     decryptedStreamKey (conferences (run s ts) cid) = decryptedStreamKey (conferences s cid)"
proof (induction ts arbitrary: s)
  case Nil
  then show ?case by (simp add: run_Nil)
next
  case (Cons t ts)
  obtain F c k where t: "t = (F, c, k)"
    by (cases t) auto
  have same: "isDecrypted (conferences (transact s t) cid) = isDecrypted (conferences s cid) \<and>
        decryptedStreamKey (conferences (transact s t) cid) =
          decryptedStreamKey (conferences s cid)"
    using decrypt_fields_step [OF Cons.prems(1), of F c k cid] Cons.prems(2) unfolding t by blast
  with Cons.prems have "isDecrypted (conferences (transact s t) cid)"
    by simp
  from Cons.IH [OF store_inv_transact [OF Cons.prems(1)] this] same show ?case
    by (simp add: run_Cons)
qed

lemma decryptStreamKey_again:
  "store_inv s \<Longrightarrow> isDecrypted (conferences s cid) \<Longrightarrow>
     decryptStreamKey F c cid k p s = (Inl Stream_key_already_decrypted, s)"
  using decrypted_exists [of s cid] by (simp add: decryptStreamKey_def)

lemma decryptStreamKey_returns:
  "decryptStreamKey F c cid k p s = (Inr evs, s') \<Longrightarrow>
     \<not> isDecrypted (conferences s cid) \<and> isDecrypted (conferences s' cid) \<and>
     abi_decode_uint32 k = Some (decryptedStreamKey (conferences s' cid))"
  by (auto simp: decryptStreamKey_def Let_def split: option.splits if_splits)

text \<open>
  Claim C3. In every storage reached from deployment: a \<^verbatim>\<open>decryptStreamKey\<close> that
  returns finds \<^verbatim>\<open>isDecrypted\<close> unset, sets it and stores the decoded clear value; once
  \<^verbatim>\<open>isDecrypted\<close> is set for an id, after any further transactions it is still set, the
  stored value is the same, and every \<^verbatim>\<open>decryptStreamKey\<close> of the id fails with "Stream
  key already decrypted" and writes nothing; and a transaction that changes
  \<^verbatim>\<open>isDecrypted\<close> or \<^verbatim>\<open>decryptedStreamKey\<close> of an id is a \<^verbatim>\<open>decryptStreamKey\<close> of that
  id which takes the flag from unset to set.
\<close>

theorem decryption_set_once:
  assumes "s = run init_storage pre"
  shows "(\<forall>F c k p evs s'. decryptStreamKey F c cid k p s = (Inr evs, s') \<longrightarrow>
            \<not> isDecrypted (conferences s cid) \<and> isDecrypted (conferences s' cid) \<and>
            abi_decode_uint32 k = Some (decryptedStreamKey (conferences s' cid))) \<and>
         (isDecrypted (conferences s cid) \<longrightarrow>
            (\<forall>ts. isDecrypted (conferences (run s ts) cid) \<and>
                  decryptedStreamKey (conferences (run s ts) cid) =
                    decryptedStreamKey (conferences s cid) \<and>
                  (\<forall>F c k p. decryptStreamKey F c cid k p (run s ts) =
                             (Inl Stream_key_already_decrypted, run s ts)))) \<and>
         (\<forall>F c k.
              isDecrypted (conferences (transact s (F, c, k)) cid) \<noteq>
                isDecrypted (conferences s cid) \<or>
              decryptedStreamKey (conferences (transact s (F, c, k)) cid) \<noteq>
                decryptedStreamKey (conferences s cid) \<longrightarrow>
              (\<exists>clear p. k = DecryptStreamKey cid clear p \<and>
                 abi_decode_uint32 clear =
                   Some (decryptedStreamKey (conferences (transact s (F, c, k)) cid))) \<and>
              \<not> isDecrypted (conferences s cid) \<and>
              isDecrypted (conferences (transact s (F, c, k)) cid))"
proof -
  have inv: "store_inv s"
    using assms by (simp add: store_inv_reachable)
  have first: "\<forall>F c k p evs s'. decryptStreamKey F c cid k p s = (Inr evs, s') \<longrightarrow>
            \<not> isDecrypted (conferences s cid) \<and> isDecrypted (conferences s' cid) \<and>
            abi_decode_uint32 k = Some (decryptedStreamKey (conferences s' cid))"
    using decryptStreamKey_returns by blast
  have later: "isDecrypted (conferences s cid) \<longrightarrow>
            (\<forall>ts. isDecrypted (conferences (run s ts) cid) \<and>
                  decryptedStreamKey (conferences (run s ts) cid) =
                    decryptedStreamKey (conferences s cid) \<and>
                  (\<forall>F c k p. decryptStreamKey F c cid k p (run s ts) =
                             (Inl Stream_key_already_decrypted, run s ts)))"
  proof (intro impI allI conjI)
    fix ts F c k p
    assume d: "isDecrypted (conferences s cid)"
    show "isDecrypted (conferences (run s ts) cid)"
      and "decryptedStreamKey (conferences (run s ts) cid) =
             decryptedStreamKey (conferences s cid)"
      using decrypted_run [OF inv d] by simp_all
    show "decryptStreamKey F c cid k p (run s ts) =
            (Inl Stream_key_already_decrypted, run s ts)"
      using decrypted_run [OF inv d, of ts] store_inv_run [OF inv, of ts]
      by (simp add: decryptStreamKey_again)
  qed
  from first later decrypt_fields_step [OF inv, of _ _ _ cid] show ?thesis
    by blast
qed

theorem decryption_set_once_witness:
  "decryptStreamKey accepting_fhe (at_time 2 10) ''room'' clear42 [] one_conference =
     (Inr [StreamKeyDecrypted ''room'' 42], decrypted_conference) \<and>
   \<not> isDecrypted (conferences one_conference ''room'') \<and>
   isDecrypted (conferences decrypted_conference ''room'') \<and>
   decryptedStreamKey (conferences decrypted_conference ''room'') = 42 \<and>
   isDecrypted (conferences (run decrypted_conference
       [(accepting_fhe, at_time 3 12, DecryptStreamKey ''room'' clear43 []),
        (accepting_fhe, at_time 1 21, EndConference ''room'')]) ''room'') \<and>
   decryptedStreamKey (conferences (run decrypted_conference
       [(accepting_fhe, at_time 3 12, DecryptStreamKey ''room'' clear43 []),
        (accepting_fhe, at_time 1 21, EndConference ''room'')]) ''room'') = 42 \<and>
   fst (decryptStreamKey accepting_fhe (at_time 3 12) ''room'' clear43 []
       (run decrypted_conference
         [(accepting_fhe, at_time 3 12, DecryptStreamKey ''room'' clear43 []),
          (accepting_fhe, at_time 1 21, EndConference ''room'')])) = Inl Stream_key_already_decrypted"
proof -
  let ?ts = "[(accepting_fhe, at_time 3 12, DecryptStreamKey ''room'' clear43 []),
              (accepting_fhe, at_time 1 21, EndConference ''room'')]"
  have ret: "decryptStreamKey accepting_fhe (at_time 2 10) ''room'' clear42 [] one_conference =
     (Inr [StreamKeyDecrypted ''room'' 42], decrypted_conference)"
    by (simp add: decryptStreamKey_def one_conference_eq decrypted_conference_eq
        accepting_fhe_def at_time_def abi_decode_clear42)
  have set: "\<not> isDecrypted (conferences one_conference ''room'') \<and>
        isDecrypted (conferences decrypted_conference ''room'') \<and>
        abi_decode_uint32 clear42 =
          Some (decryptedStreamKey (conferences decrypted_conference ''room''))"
    using decryption_set_once [OF one_conference_reached, of "''room''"] ret by blast
  have d: "isDecrypted (conferences decrypted_conference ''room'')"
    using set by simp
  have v: "decryptedStreamKey (conferences decrypted_conference ''room'') = 42"
    using set by (simp add: abi_decode_clear42)
  have "isDecrypted (conferences (run decrypted_conference ?ts) ''room'') \<and>
        decryptedStreamKey (conferences (run decrypted_conference ?ts) ''room'') =
          decryptedStreamKey (conferences decrypted_conference ''room'') \<and>
        decryptStreamKey accepting_fhe (at_time 3 12) ''room'' clear43 []
          (run decrypted_conference ?ts) =
          (Inl Stream_key_already_decrypted, run decrypted_conference ?ts)"
    using decryption_set_once [OF decrypted_conference_reached, of "''room''"] d by blast
  with ret set v show ?thesis
    by simp
qed

subsection \<open>Ending a conference\<close>

text \<open>
  The checks of \<^verbatim>\<open>endConference\<close> in the order of the body, for every storage, in terms
  of the stored record: its \<^verbatim>\<open>conferenceId\<close> is empty, the caller is not its creator, the
  block time is at most its end time. Otherwise the call returns, writes
  \<^verbatim>\<open>isActive = false\<close> to that record and nothing else, and both reads of the flag report
  false.
\<close>

lemma endConference_guards:
  "(conferenceId (conferences s cid) = [] \<longrightarrow>
      endConference c cid s = (Inl Conference_does_not_exist, s)) \<and>
   (conferenceId (conferences s cid) \<noteq> [] \<and> msg_sender c \<noteq> creator (conferences s cid) \<longrightarrow>
      endConference c cid s = (Inl Only_creator_can_end_conference, s)) \<and>
   (conferenceId (conferences s cid) \<noteq> [] \<and> msg_sender c = creator (conferences s cid) \<and>
    block_timestamp c \<le> endTime (conferences s cid) \<longrightarrow>
      endConference c cid s = (Inl Conference_is_still_active, s)) \<and>
   (conferenceId (conferences s cid) \<noteq> [] \<and> msg_sender c = creator (conferences s cid) \<and>
    endTime (conferences s cid) < block_timestamp c \<longrightarrow>
      fst (endConference c cid s) = Inr [] \<and>
      transact s (F, c, EndConference cid) = snd (endConference c cid s) \<and>
      conferences (snd (endConference c cid s)) =
        (conferences s)(cid := (conferences s cid)\<lparr> isActive := False \<rparr>) \<and>
      conferenceIds (snd (endConference c cid s)) = conferenceIds s \<and>
      isConferenceActive (snd (endConference c cid s)) cid = Inr False \<and>
      getConferenceDetails (snd (endConference c cid s)) cid =
        Inr (creator (conferences s cid), startTime (conferences s cid),
             endTime (conferences s cid), False, isDecrypted (conferences s cid),
             decryptedStreamKey (conferences s cid)))"
  by (simp add: endConference_def transact_def isConferenceActive_def
      getConferenceDetails_def not_less)

text \<open>
  For an id other than the empty string, in every storage reached from deployment: the
  call fails with "Conference does not exist" when no conference with that id was
  created, otherwise with "Only creator can end conference" for another caller, otherwise
  with "Conference is still active" up to the end time, and otherwise it returns and the
  reads report the flag as false.
\<close>

lemma endConference_created:
  assumes "s = run init_storage pre" and "cid \<noteq> []"
  shows
  "(cid \<notin> set (getAllConferenceIds s) \<longrightarrow>
      endConference c cid s = (Inl Conference_does_not_exist, s)) \<and>
   (cid \<in> set (getAllConferenceIds s) \<and> msg_sender c \<noteq> creator (conferences s cid) \<longrightarrow>
      endConference c cid s = (Inl Only_creator_can_end_conference, s)) \<and>
   (cid \<in> set (getAllConferenceIds s) \<and> msg_sender c = creator (conferences s cid) \<and>
    block_timestamp c \<le> endTime (conferences s cid) \<longrightarrow>
      endConference c cid s = (Inl Conference_is_still_active, s)) \<and>
   (cid \<in> set (getAllConferenceIds s) \<and> msg_sender c = creator (conferences s cid) \<and>
    endTime (conferences s cid) < block_timestamp c \<longrightarrow>
      fst (endConference c cid s) = Inr [] \<and>
      isConferenceActive (snd (endConference c cid s)) cid = Inr False \<and>
      getConferenceDetails (snd (endConference c cid s)) cid =
        Inr (creator (conferences s cid), startTime (conferences s cid),
             endTime (conferences s cid), False, isDecrypted (conferences s cid),
             decryptedStreamKey (conferences s cid)))"
proof -
  have "store_inv s"
    using assms(1) by (simp add: store_inv_reachable)
  then have g: "cid \<in> set (getAllConferenceIds s) \<longleftrightarrow> conferenceId (conferences s cid) \<noteq> []"
    using guard_iff_created [of s cid] assms(2) by blast
  show ?thesis
    unfolding g using endConference_guards [of s cid c] by simp
qed

text \<open>
  Claim C5, at the empty id. The claim is that \<^verbatim>\<open>endConference\<close> of an id whose record
  exists, sent by the record's creator after the end time, returns and clears
  \<^verbatim>\<open>isActive\<close>, and that another caller is refused as not the creator. A conference
  created with the empty string as id is stored and listed, its creator is account 1 and
  its end time is 20; at time 21 the creator's \<^verbatim>\<open>endConference\<close> fails with
  "Conference does not exist" and the flag stays true, and another caller gets the same
  failure. (For every other id the claim holds: \<open>endConference_created\<close>.)
\<close>

theorem endConference_empty_id:
  "[] \<in> set (getAllConferenceIds empty_id_conference) \<and>
   conferences empty_id_conference [] =
     \<lparr> conferenceId = [], encryptedStreamKey = 7, creator = 1, startTime = 5, endTime = 20,
       isActive = True, decryptedStreamKey = 0, isDecrypted = False \<rparr> \<and>
   msg_sender (at_time 1 21) = creator (conferences empty_id_conference []) \<and>
   endTime (conferences empty_id_conference []) < block_timestamp (at_time 1 21) \<and>
   endConference (at_time 1 21) [] empty_id_conference =
     (Inl Conference_does_not_exist, empty_id_conference) \<and>
   endConference (at_time 2 21) [] empty_id_conference =
     (Inl Conference_does_not_exist, empty_id_conference)"
  by (simp add: empty_id_conference_eq endConference_def getAllConferenceIds_def at_time_def)

text \<open>
  The \<^verbatim>\<open>isActive\<close> flag of a created id changes only in an \<^verbatim>\<open>endConference\<close> of that
  id, from true to false.
\<close>

lemma transact_conferenceIds:
  "conferenceIds (transact s t) = conferenceIds s @ created_by s t"
proof -
  obtain F c k where t: "t = (F, c, k)"
    by (cases t) auto
  show ?thesis
    unfolding t
    by (cases k)
      (auto simp: transact_def createConference_def decryptStreamKey_def endConference_def
        Let_def split: option.splits)
qed

lemma conferenceIds_mono: "cid \<in> set (conferenceIds s) \<Longrightarrow> cid \<in> set (conferenceIds (transact s t))"
  by (simp add: transact_conferenceIds)

lemma isActive_step:
  assumes inv: "store_inv s" and mem: "cid \<in> set (conferenceIds s)"
    and ch: "isActive (conferences (transact s (F, c, k)) cid) \<noteq> isActive (conferences s cid)"
  shows "k = EndConference cid \<and> msg_sender c = creator (conferences s cid) \<and>
         endTime (conferences s cid) < block_timestamp c \<and>
         isActive (conferences s cid) \<and> \<not> isActive (conferences (transact s (F, c, k)) cid)"
proof (cases k)
  case (CreateConference cid' e p a b)
  with inv mem ch transact_create_cases [of s F c cid' e p a b] show ?thesis
    by (auto simp: store_inv_def split: if_splits)
next
  case (DecryptStreamKey cid' e p)
  with ch transact_decrypt_cases [of s F c cid' e p] show ?thesis
    by (auto split: if_splits)
next
  case (EndConference cid')
  with ch transact_end_cases [of s F c cid'] show ?thesis
    by (auto split: if_splits)
qed

lemma inactive_step:
  assumes "store_inv s" and "cid \<in> set (conferenceIds s)" and "\<not> isActive (conferences s cid)"
  shows "\<not> isActive (conferences (transact s t) cid)"
proof -
  obtain F c k where t: "t = (F, c, k)"
    by (cases t) auto
  show ?thesis
    using isActive_step [OF assms(1,2), of F c k] assms(3) unfolding t by blast
qed

lemma inactive_run:
  "store_inv s \<Longrightarrow> cid \<in> set (conferenceIds s) \<Longrightarrow> \<not> isActive (conferences s cid) \<Longrightarrow>
     \<not> isActive (conferences (run s ts) cid)"
proof (induction ts arbitrary: s)
  case Nil
  then show ?case by (simp add: run_Nil)
next
  case (Cons t ts)
  then show ?case
    by (simp add: run_Cons store_inv_transact conferenceIds_mono inactive_step)
qed

lemma deactivations_trace:
  "deactivations cid (s # trace s' ts) =
     (if isActive (conferences s cid) \<and> \<not> isActive (conferences s' cid) then 1 else 0)
       + deactivations cid (trace s' ts)"
  by (cases ts) simp_all

lemma not_created_inactive:
  "store_inv s \<Longrightarrow> cid \<notin> set (conferenceIds s) \<Longrightarrow> \<not> isActive (conferences s cid)"
  by (simp add: store_inv_def zero_Conference_def)

lemma deactivations_bound:
  "store_inv s \<Longrightarrow>
     deactivations cid (trace s ts) \<le> 1 \<and>
     (\<not> isActive (conferences s cid) \<and> cid \<in> set (conferenceIds s) \<longrightarrow>
        deactivations cid (trace s ts) = 0)"
proof (induction ts arbitrary: s)
  case Nil
  then show ?case by simp
next
  case (Cons t ts)
  let ?s' = "transact s t"
  have inv': "store_inv ?s'"
    using Cons.prems by (rule store_inv_transact)
  note IH = Cons.IH [OF inv']
  show ?case
  proof (cases "cid \<in> set (conferenceIds s)")
    case True
    then have mem': "cid \<in> set (conferenceIds ?s')"
      by (rule conferenceIds_mono)
    show ?thesis
    proof (cases "isActive (conferences s cid)")
      case False
      then have "\<not> isActive (conferences ?s' cid)"
        using Cons.prems True by (simp add: inactive_step)
      with IH mem' False show ?thesis
        by (simp add: deactivations_trace)
    next
      case act: True
      show ?thesis
      proof (cases "isActive (conferences ?s' cid)")
        case True
        with IH act show ?thesis by (simp add: deactivations_trace)
      next
        case False
        with IH mem' act show ?thesis by (simp add: deactivations_trace)
      qed
    qed
  next
    case False
    then have "\<not> isActive (conferences s cid)"
      using Cons.prems by (simp add: not_created_inactive)
    with IH False show ?thesis
      by (simp add: deactivations_trace)
  qed
qed

text \<open>
  Claim C6. In every storage reached from deployment, for an id that was created: a
  transaction that changes its \<^verbatim>\<open>isActive\<close> flag is an \<^verbatim>\<open>endConference\<close> of that id,
  sent by the creator after the end time, and takes the flag from true to false; once the
  flag is false it is false after any further transactions; and in every history the
  flag of an id goes from true to false at most once.
\<close>

theorem isActive_only_falls:
  assumes "s = run init_storage pre"
  shows "(cid \<in> set (conferenceIds s) \<longrightarrow>
            (\<forall>F c k.
                 isActive (conferences (transact s (F, c, k)) cid) \<noteq>
                   isActive (conferences s cid) \<longrightarrow>
                 k = EndConference cid \<and>
                 msg_sender c = creator (conferences s cid) \<and>
                 endTime (conferences s cid) < block_timestamp c \<and>
                 isActive (conferences s cid) \<and>
                 \<not> isActive (conferences (transact s (F, c, k)) cid))) \<and>
         (cid \<in> set (conferenceIds s) \<and> \<not> isActive (conferences s cid) \<longrightarrow>
            (\<forall>ts. \<not> isActive (conferences (run s ts) cid))) \<and>
         (\<forall>ts. deactivations cid (trace s ts) \<le> 1)"
proof -
  have inv: "store_inv s"
    using assms by (simp add: store_inv_reachable)
  show ?thesis
    using isActive_step [OF inv] inactive_run [OF inv] deactivations_bound [OF inv]
    by blast
qed

theorem isActive_only_falls_witness:
  "''room'' \<in> set (conferenceIds one_conference) \<and>
   isActive (conferences one_conference ''room'') \<and>
   \<not> isActive (conferences ended_conference ''room'') \<and>
   ''room'' \<in> set (conferenceIds ended_conference) \<and>
   \<not> isActive (conferences (run ended_conference
       [(accepting_fhe, at_time 1 22, CreateConference ''room'' 7 [] 5 30),
        (accepting_fhe, at_time 1 23, EndConference ''room'')]) ''room'') \<and>
   deactivations ''room'' (trace one_conference
       [(accepting_fhe, at_time 1 21, EndConference ''room''),
        (accepting_fhe, at_time 1 22, CreateConference ''room'' 7 [] 5 30),
        (accepting_fhe, at_time 1 23, EndConference ''room'')]) \<le> 1"
proof -
  have a: "''room'' \<in> set (conferenceIds one_conference) \<and>
           isActive (conferences one_conference ''room'')"
    by (simp add: one_conference_eq)
  have b: "''room'' \<in> set (conferenceIds ended_conference) \<and>
           \<not> isActive (conferences ended_conference ''room'')"
    by (simp add: ended_conference_eq)
  have "\<not> isActive (conferences (run ended_conference
       [(accepting_fhe, at_time 1 22, CreateConference ''room'' 7 [] 5 30),
        (accepting_fhe, at_time 1 23, EndConference ''room'')]) ''room'')"
    using isActive_only_falls [OF ended_conference_reached, of "''room''"] b by blast
  moreover have "deactivations ''room'' (trace one_conference
       [(accepting_fhe, at_time 1 21, EndConference ''room''),
        (accepting_fhe, at_time 1 22, CreateConference ''room'' 7 [] 5 30),
        (accepting_fhe, at_time 1 23, EndConference ''room'')]) \<le> 1"
    using isActive_only_falls [OF one_conference_reached, of "''room''"] by blast
  ultimately show ?thesis
    using a b by simp
qed

subsection \<open>Reading\<close>

text \<open>
  Claim C7, amended. For an id whose stored record has an empty id (the contract's test
  for an unknown id), and so for every id that was never created in a storage reached
  from deployment, \<^verbatim>\<open>getConferenceDetails\<close>, \<^verbatim>\<open>getEncryptedStreamKey\<close> and
  \<^verbatim>\<open>isConferenceActive\<close> fail with "Conference does not exist". The accessor of the
  public mapping does not fail for such an id: it returns the zero record.
\<close>

theorem reads_of_unknown_id_fail:
  "(conferenceId (conferences s cid) = [] \<longrightarrow>
      getConferenceDetails s cid = Inl Conference_does_not_exist \<and>
      getEncryptedStreamKey s cid = Inl Conference_does_not_exist \<and>
      isConferenceActive s cid = Inl Conference_does_not_exist) \<and>
   (cid \<notin> set (getAllConferenceIds (run init_storage ts)) \<longrightarrow>
      getConferenceDetails (run init_storage ts) cid = Inl Conference_does_not_exist \<and>
      getEncryptedStreamKey (run init_storage ts) cid = Inl Conference_does_not_exist \<and>
      isConferenceActive (run init_storage ts) cid = Inl Conference_does_not_exist \<and>
      conferences_getter (run init_storage ts) cid = Inr zero_Conference)"
proof -
  have "cid \<notin> set (conferenceIds (run init_storage ts)) \<Longrightarrow>
        conferences (run init_storage ts) cid = zero_Conference"
    using store_inv_reachable [of ts] by (simp add: store_inv_def)
  moreover have "conferenceId zero_Conference = []"
    by (simp add: zero_Conference_def)
  ultimately show ?thesis
    by (auto simp: getConferenceDetails_def getEncryptedStreamKey_def isConferenceActive_def
        getAllConferenceIds_def conferences_getter_def)
qed

theorem reads_of_unknown_id_fail_witness:
  "getConferenceDetails one_conference ''nobody'' = Inl Conference_does_not_exist \<and>
   getEncryptedStreamKey one_conference ''nobody'' = Inl Conference_does_not_exist \<and>
   isConferenceActive one_conference ''nobody'' = Inl Conference_does_not_exist \<and>
   conferences_getter one_conference ''nobody'' = Inr zero_Conference \<and>
   ''nobody'' \<notin> set (getAllConferenceIds one_conference) \<and>
   conferenceId (conferences one_conference ''nobody'') = []"
proof -
  have "''nobody'' \<notin> set (getAllConferenceIds one_conference) \<and>
        conferenceId (conferences one_conference ''nobody'') = []"
    by (simp add: one_conference_eq getAllConferenceIds_def zero_Conference_def)
  then show ?thesis
    using reads_of_unknown_id_fail [of one_conference "''nobody''"
        "[(accepting_fhe, at_time 1 10, CreateConference ''room'' 7 [] 5 20)]"]
    by (simp add: one_conference_def)
qed

text \<open>
  Claim C7 as stated covers every read that the contract exposes. No conference
  \<open>''nobody''\<close> was created here, and the accessor of the public mapping returns a
  record for it, all of whose fields are zero.
\<close>

theorem conferences_getter_unknown_id:
  "''nobody'' \<notin> set (getAllConferenceIds one_conference) \<and>
   conferenceId (conferences one_conference ''nobody'') = [] \<and>
   conferences_getter one_conference ''nobody'' =
     Inr \<lparr> conferenceId = [], encryptedStreamKey = 0, creator = 0, startTime = 0, endTime = 0,
           isActive = False, decryptedStreamKey = 0, isDecrypted = False \<rparr>"
  by (simp add: one_conference_eq getAllConferenceIds_def conferences_getter_def
      zero_Conference_def)

subsection \<open>The list of ids\<close>

lemma run_conferenceIds:
  "conferenceIds (run s ts) = conferenceIds s @ created_ids s ts"
  by (induction ts arbitrary: s) (simp_all add: run_Nil run_Cons transact_conferenceIds)

lemma created_by_no_create: "\<not> is_create (snd (snd t)) \<Longrightarrow> created_by s t = []"
proof -
  obtain F c k where t: "t = (F, c, k)"
    by (cases t) auto
  assume "\<not> is_create (snd (snd t))"
  then show ?thesis
    unfolding t by (cases k) auto
qed

lemma created_ids_no_create:
  "\<forall>t\<in>set ts. \<not> is_create (snd (snd t)) \<Longrightarrow> created_ids s ts = []"
  by (induction ts arbitrary: s) (simp_all add: created_by_no_create)

text \<open>
  Claim C8. After any history, \<^verbatim>\<open>getAllConferenceIds\<close> returns the list it returned
  before followed by the ids of the \<^verbatim>\<open>createConference\<close> calls that returned, in call
  order; from deployment it is exactly that list; and a history of \<^verbatim>\<open>endConference\<close> and
  \<^verbatim>\<open>decryptStreamKey\<close> calls leaves it as it was.
\<close>

theorem conferenceIds_append_only:
  "getAllConferenceIds (run s ts) = getAllConferenceIds s @ created_ids s ts \<and>
   getAllConferenceIds (run init_storage ts) = created_ids init_storage ts \<and>
   ((\<forall>t\<in>set ts. \<not> is_create (snd (snd t))) \<longrightarrow>
      getAllConferenceIds (run s ts) = getAllConferenceIds s)"
  by (simp add: getAllConferenceIds_def run_conferenceIds created_ids_no_create init_storage_def)

theorem conferenceIds_append_only_witness:
  "getAllConferenceIds (run init_storage
     [(accepting_fhe, at_time 1 10, CreateConference ''room'' 7 [] 5 20),
      (accepting_fhe, at_time 1 10, CreateConference ''late'' 7 [] 100 50),
      (accepting_fhe, at_time 2 11, CreateConference ''hall'' 9 [] 6 30),
      (accepting_fhe, at_time 1 21, EndConference ''room'')]) = [''room'', ''hall''] \<and>
   getAllConferenceIds (run one_conference
     [(accepting_fhe, at_time 2 10, DecryptStreamKey ''room'' clear42 []),
      (accepting_fhe, at_time 1 21, EndConference ''room'')]) = [''room'']"
proof -
  have c: "created_ids init_storage
     [(accepting_fhe, at_time 1 10, CreateConference ''room'' 7 [] 5 20),
      (accepting_fhe, at_time 1 10, CreateConference ''late'' 7 [] 100 50),
      (accepting_fhe, at_time 2 11, CreateConference ''hall'' 9 [] 6 30),
      (accepting_fhe, at_time 1 21, EndConference ''room'')] = [''room'', ''hall'']"
    by (simp add: transact_def createConference_def endConference_def accepting_fhe_def
        at_time_def init_storage_def zero_Conference_def)
  have n: "\<forall>t\<in>set [(accepting_fhe, at_time 2 10, DecryptStreamKey ''room'' clear42 []),
      (accepting_fhe, at_time 1 21, EndConference ''room'')]. \<not> is_create (snd (snd t))"
    by simp
  have "getAllConferenceIds (run init_storage
     [(accepting_fhe, at_time 1 10, CreateConference ''room'' 7 [] 5 20),
      (accepting_fhe, at_time 1 10, CreateConference ''late'' 7 [] 100 50),
      (accepting_fhe, at_time 2 11, CreateConference ''hall'' 9 [] 6 30),
      (accepting_fhe, at_time 1 21, EndConference ''room'')]) =
    created_ids init_storage
     [(accepting_fhe, at_time 1 10, CreateConference ''room'' 7 [] 5 20),
      (accepting_fhe, at_time 1 10, CreateConference ''late'' 7 [] 100 50),
      (accepting_fhe, at_time 2 11, CreateConference ''hall'' 9 [] 6 30),
      (accepting_fhe, at_time 1 21, EndConference ''room'')]"
    using conferenceIds_append_only [of init_storage
        "[(accepting_fhe, at_time 1 10, CreateConference ''room'' 7 [] 5 20),
          (accepting_fhe, at_time 1 10, CreateConference ''late'' 7 [] 100 50),
          (accepting_fhe, at_time 2 11, CreateConference ''hall'' 9 [] 6 30),
          (accepting_fhe, at_time 1 21, EndConference ''room'')]"]
    by blast
  then have "getAllConferenceIds (run init_storage
     [(accepting_fhe, at_time 1 10, CreateConference ''room'' 7 [] 5 20),
      (accepting_fhe, at_time 1 10, CreateConference ''late'' 7 [] 100 50),
      (accepting_fhe, at_time 2 11, CreateConference ''hall'' 9 [] 6 30),
      (accepting_fhe, at_time 1 21, EndConference ''room'')]) = [''room'', ''hall'']"
    unfolding c .
  moreover have "getAllConferenceIds (run one_conference
     [(accepting_fhe, at_time 2 10, DecryptStreamKey ''room'' clear42 []),
      (accepting_fhe, at_time 1 21, EndConference ''room'')]) = getAllConferenceIds one_conference"
    using n conferenceIds_append_only [of one_conference
        "[(accepting_fhe, at_time 2 10, DecryptStreamKey ''room'' clear42 []),
          (accepting_fhe, at_time 1 21, EndConference ''room'')]"]
    by blast
  ultimately show ?thesis
    by (simp add: one_conference_eq getAllConferenceIds_def)
qed

subsection \<open>Failing calls\<close>

text \<open>
  Claim C9. A transaction whose body reverts leaves the whole storage, the mapping and
  the list of ids, as it was before the call. Every revert but the two inside
  \<^verbatim>\<open>FHE.allowThis\<close> and \<^verbatim>\<open>FHE.makePubliclyDecryptable\<close> happens before the body has
  written anything; those two follow the write of the record, which the revert discards.
\<close>

theorem failed_call_leaves_storage:
  "fst (dispatch F c k s) = Inl e \<Longrightarrow>
     transact s (F, c, k) = s \<and>
     (e \<noteq> FHE_allowThis_reverted \<and> e \<noteq> FHE_makePubliclyDecryptable_reverted \<longrightarrow>
        snd (dispatch F c k s) = s)"
proof (cases k)
  case (CreateConference cid ek ip a b)
  assume "fst (dispatch F c k s) = Inl e"
  with CreateConference show ?thesis
    by (auto simp: transact_def createConference_def Let_def split: option.splits if_splits)
next
  case (DecryptStreamKey cid ck dp)
  assume "fst (dispatch F c k s) = Inl e"
  with DecryptStreamKey show ?thesis
    by (auto simp: transact_def decryptStreamKey_def Let_def split: option.splits if_splits)
next
  case (EndConference cid)
  assume "fst (dispatch F c k s) = Inl e"
  with EndConference show ?thesis
    by (auto simp: transact_def endConference_def split: if_splits)
qed

theorem failed_call_leaves_storage_witness:
  "fst (dispatch accepting_fhe (at_time 1 10) (CreateConference ''late'' 7 [] 100 50) one_conference)
     = Inl Invalid_time_range \<and>
   transact one_conference (accepting_fhe, at_time 1 10, CreateConference ''late'' 7 [] 100 50)
     = one_conference \<and>
   snd (dispatch accepting_fhe (at_time 1 10) (CreateConference ''late'' 7 [] 100 50) one_conference)
     = one_conference \<and>
   fst (dispatch denying_fhe (at_time 1 10) (CreateConference ''next'' 7 [] 5 20) one_conference)
     = Inl FHE_allowThis_reverted \<and>
   transact one_conference (denying_fhe, at_time 1 10, CreateConference ''next'' 7 [] 5 20)
     = one_conference"
proof -
  have a: "fst (dispatch accepting_fhe (at_time 1 10) (CreateConference ''late'' 7 [] 100 50)
             one_conference) = Inl Invalid_time_range"
    by (simp add: createConference_def one_conference_eq accepting_fhe_def at_time_def
        zero_Conference_def)
  have b: "fst (dispatch denying_fhe (at_time 1 10) (CreateConference ''next'' 7 [] 5 20)
             one_conference) = Inl FHE_allowThis_reverted"
    by (simp add: createConference_def one_conference_eq accepting_fhe_def denying_fhe_def
        at_time_def zero_Conference_def)
  show ?thesis
    using a b failed_call_leaves_storage [OF a] failed_call_leaves_storage [OF b] by simp
qed

subsection \<open>The empty id\<close>



end
